theory Spec2Isabelle
  imports Main "HOL-Library.Word" "HOL-Library.Sublist"
begin

section \<open>Exceptions\<close>

text \<open>
  A Python exception is a value: its class and the text that \<^verbatim>\<open>str(ex)\<close> gives.
  A function that may raise returns \<open>exn + 'a\<close>, \<open>Inl\<close> the exception. The classes
  \<^verbatim>\<open>SystemExit\<close>, \<^verbatim>\<open>KeyboardInterrupt\<close> and \<^verbatim>\<open>GeneratorExit\<close> derive from
  \<^verbatim>\<open>BaseException\<close> only; every other class listed derives from \<^verbatim>\<open>Exception\<close>.
  A handler \<^verbatim>\<open>except Exception\<close> catches an exception exactly when \<open>is_Exception\<close>
  holds of it.
\<close>

datatype exn_class =
  ValueError | TypeError | AttributeError | IndexError | KeyError | ImportError
  | IOError | ConnectionError | Timeout | JSONDecodeError | RpcError | RuntimeError
  | SystemExit | KeyboardInterrupt | GeneratorExit

datatype exn = Exn exn_class string

fun str_exn :: "exn \<Rightarrow> string" where
  "str_exn (Exn c m) = m"

fun exn_cls :: "exn \<Rightarrow> exn_class" where
  "exn_cls (Exn c m) = c"

definition is_Exception :: "exn \<Rightarrow> bool" where
  "is_Exception ex =
     (exn_cls ex \<noteq> SystemExit \<and> exn_cls ex \<noteq> KeyboardInterrupt \<and> exn_cls ex \<noteq> GeneratorExit)"

section \<open>Engine registry\<close>

text \<open>
  \<^verbatim>\<open>BasePreprocessRequest.__preprocessing_lookup\<close> (a dict from engine name to class)
  and \<^verbatim>\<open>__preprocessing_modules\<close> (a set of module names) are class attributes shared
  by every subclass; the classes of the module are the values stored.
\<close>

datatype engine_cls =
  TritonPreprocessRequest | SKLearnPreprocessRequest | XGBoostPreprocessRequest
  | LightGBMPreprocessRequest | CustomPreprocessRequest

record registry =
  preprocessing_lookup :: "string \<rightharpoonup> engine_cls"
  preprocessing_modules :: "string set"

definition empty_registry :: registry where
  "empty_registry = \<lparr>preprocessing_lookup = Map.empty, preprocessing_modules = {}\<rparr>"

definition validate_engine_type :: "registry \<Rightarrow> string \<Rightarrow> bool" where
  "validate_engine_type reg engine = (engine \<in> dom (preprocessing_lookup reg))"

definition get_engine_cls :: "registry \<Rightarrow> string \<Rightarrow> engine_cls option" where
  "get_engine_cls reg engine = preprocessing_lookup reg engine"

text \<open>
  \<^verbatim>\<open>@register_engine(engine_name, modules)\<close> applied to a class: the module names are
  added when \<^verbatim>\<open>modules\<close> is a non-empty list, then the wrapper stores the class under
  the engine name. \<open>None\<close> and \<open>[]\<close> are both falsy.
\<close>

definition register_engine ::
  "string \<Rightarrow> string list option \<Rightarrow> engine_cls \<Rightarrow> registry \<Rightarrow> registry" where
  "register_engine engine_name modules cls reg =
     (let reg1 = (case modules of
                    None \<Rightarrow> reg
                  | Some ms \<Rightarrow> if ms = [] then reg
                      else reg\<lparr>preprocessing_modules := preprocessing_modules reg \<union> set ms\<rparr>)
      in reg1\<lparr>preprocessing_lookup := (preprocessing_lookup reg1)(engine_name \<mapsto> cls)\<rparr>)"

fun register_all ::
  "(string \<times> string list option \<times> engine_cls) list \<Rightarrow> registry \<Rightarrow> registry" where
  "register_all [] reg = reg"
| "register_all ((n, ms, c) # rest) reg = register_all rest (register_engine n ms c reg)"

text \<open>The five decorated classes of the module, in the order the module defines them.\<close>

definition module_registrations :: "(string \<times> string list option \<times> engine_cls) list" where
  "module_registrations =
     [(''triton'', Some [''grpc'', ''tritonclient''], TritonPreprocessRequest),
      (''sklearn'', Some [''joblib'', ''sklearn''], SKLearnPreprocessRequest),
      (''xgboost'', Some [''xgboost''], XGBoostPreprocessRequest),
      (''lightgbm'', Some [''lightgbm''], LightGBMPreprocessRequest),
      (''custom'', None, CustomPreprocessRequest)]"

definition module_registry :: registry where
  "module_registry = register_all module_registrations empty_registry"

section \<open>Element types and the content-field table\<close>

text \<open>
  The scalar types of numpy with a fixed item size; \<open>numpy_bool\<close> is \<^verbatim>\<open>np.bool_\<close>.
  \<^verbatim>\<open>np.dtype(t).type\<close> is always one of numpy's own scalar types, never a Python
  builtin.
\<close>

datatype np_scalar =
  numpy_bool | numpy_int8 | numpy_int16 | numpy_int32 | numpy_int64
  | numpy_uint8 | numpy_uint16 | numpy_uint32 | numpy_uint64
  | numpy_float16 | numpy_float32 | numpy_float64 | numpy_complex64 | numpy_complex128

fun itemsize :: "np_scalar \<Rightarrow> nat" where
  "itemsize numpy_bool = 1"
| "itemsize numpy_int8 = 1"
| "itemsize numpy_int16 = 2"
| "itemsize numpy_int32 = 4"
| "itemsize numpy_int64 = 8"
| "itemsize numpy_uint8 = 1"
| "itemsize numpy_uint16 = 2"
| "itemsize numpy_uint32 = 4"
| "itemsize numpy_uint64 = 8"
| "itemsize numpy_float16 = 2"
| "itemsize numpy_float32 = 4"
| "itemsize numpy_float64 = 8"
| "itemsize numpy_complex64 = 8"
| "itemsize numpy_complex128 = 16"

fun type_repr :: "np_scalar \<Rightarrow> string" where
  "type_repr numpy_bool = ''<class 'numpy.bool_'>''"
| "type_repr numpy_int8 = ''<class 'numpy.int8'>''"
| "type_repr numpy_int16 = ''<class 'numpy.int16'>''"
| "type_repr numpy_int32 = ''<class 'numpy.int32'>''"
| "type_repr numpy_int64 = ''<class 'numpy.int64'>''"
| "type_repr numpy_uint8 = ''<class 'numpy.uint8'>''"
| "type_repr numpy_uint16 = ''<class 'numpy.uint16'>''"
| "type_repr numpy_uint32 = ''<class 'numpy.uint32'>''"
| "type_repr numpy_uint64 = ''<class 'numpy.uint64'>''"
| "type_repr numpy_float16 = ''<class 'numpy.float16'>''"
| "type_repr numpy_float32 = ''<class 'numpy.float32'>''"
| "type_repr numpy_float64 = ''<class 'numpy.float64'>''"
| "type_repr numpy_complex64 = ''<class 'numpy.complex64'>''"
| "type_repr numpy_complex128 = ''<class 'numpy.complex128'>''"

text \<open>
  The type objects that occur as keys of \<^verbatim>\<open>_content_lookup\<close> or as an endpoint's
  configured element type: a numpy scalar type, or one of the Python builtins
  \<^verbatim>\<open>int\<close> and \<^verbatim>\<open>bool\<close>. Two keys are the same key exactly when they are the same
  type object.
\<close>

datatype py_type = NP np_scalar | builtin_int | builtin_bool

text \<open>
  What numpy's names denote is fixed by numpy, not by this module, and partly by the
  C data model numpy was built for:
  \<^item> \<^verbatim>\<open>np.int\<close> and \<^verbatim>\<open>np.bool\<close> are the Python builtins \<^verbatim>\<open>int\<close> and \<^verbatim>\<open>bool\<close>
    in every numpy release that has these attributes (they were removed in 1.24; with
    a later numpy the class body raises \<^verbatim>\<open>AttributeError\<close> and the module does not
    import);
  \<^item> \<^verbatim>\<open>np.uint\<close> is the scalar type of C's \<^verbatim>\<open>unsigned long\<close>: the same object as
    \<^verbatim>\<open>np.uint64\<close> where long has 64 bits (Linux, macOS), as \<^verbatim>\<open>np.uint32\<close> where
    it has 32 (Windows);
  \<^item> \<^verbatim>\<open>np.dtype(int)\<close> is the dtype of C's \<^verbatim>\<open>long\<close>, and \<^verbatim>\<open>np.dtype(bool)\<close> is
    the dtype whose scalar type is \<^verbatim>\<open>np.bool_\<close>.
\<close>

datatype c_data_model = LP64 | LLP64

definition np_int :: py_type where
  "np_int = builtin_int"

definition np_bool :: py_type where
  "np_bool = builtin_bool"

definition np_uint :: "c_data_model \<Rightarrow> py_type" where
  "np_uint m = (case m of LP64 \<Rightarrow> NP numpy_uint64 | LLP64 \<Rightarrow> NP numpy_uint32)"

text \<open>\<^verbatim>\<open>np.dtype(t).type\<close>\<close>

fun np_dtype_type :: "c_data_model \<Rightarrow> py_type \<Rightarrow> np_scalar" where
  "np_dtype_type m (NP t) = t"
| "np_dtype_type LP64 builtin_int = numpy_int64"
| "np_dtype_type LLP64 builtin_int = numpy_int32"
| "np_dtype_type m builtin_bool = numpy_bool"

text \<open>The typed fields of the wire message \<^verbatim>\<open>InferTensorContents\<close>.\<close>

datatype contents_field =
  bool_contents | int_contents | int64_contents | uint_contents | uint64_contents
  | fp32_contents | fp64_contents | bytes_contents

text \<open>
  \<^verbatim>\<open>TritonPreprocessRequest._content_lookup\<close>, the dict display of the class body with
  its entries in source order. A dict display stores its entries from left to right, so
  of two entries with the same key the later one stays, as with map update.
\<close>

definition content_lookup :: "c_data_model \<Rightarrow> py_type \<rightharpoonup> contents_field" where
  "content_lookup m =
     [NP numpy_uint8 \<mapsto> uint_contents,
      NP numpy_int8 \<mapsto> int_contents,
      NP numpy_int64 \<mapsto> int64_contents,
      NP numpy_uint64 \<mapsto> uint64_contents,
      np_int \<mapsto> int_contents,
      np_uint m \<mapsto> uint_contents,
      np_bool \<mapsto> bool_contents,
      NP numpy_float32 \<mapsto> fp32_contents,
      NP numpy_float64 \<mapsto> fp64_contents]"

section \<open>Arrays\<close>

text \<open>
  An array is its element type, its shape and its elements in row-major (C) order, the
  layout \<^verbatim>\<open>np.array\<close>, \<^verbatim>\<open>np.frombuffer\<close> and \<^verbatim>\<open>np.resize\<close> produce. An element is
  the \<open>itemsize\<close> bytes that hold it in memory, so two arrays are equal here exactly when
  they agree in type, shape and every bit of every element.
\<close>

type_synonym byte = "8 word"
type_synonym elem = "byte list"

record ndarray =
  arr_dtype :: np_scalar
  arr_shape :: "nat list"
  arr_data :: "elem list"

definition wf_ndarray :: "ndarray \<Rightarrow> bool" where
  "wf_ndarray a =
     (length (arr_data a) = prod_list (arr_shape a) \<and>
      list_all (\<lambda>e. length e = itemsize (arr_dtype a)) (arr_data a))"

text \<open>\<^verbatim>\<open>a.flatten()\<close>: a one-dimensional copy, elements in row-major order.\<close>

definition flatten :: "ndarray \<Rightarrow> ndarray" where
  "flatten a = a\<lparr>arr_shape := [length (arr_data a)]\<rparr>"

text \<open>\<^verbatim>\<open>a.tobytes()\<close>: the bytes of the elements, one element after the other.\<close>

definition tobytes :: "ndarray \<Rightarrow> byte list" where
  "tobytes a = concat (arr_data a)"

function chunks :: "nat \<Rightarrow> 'a list \<Rightarrow> 'a list list" where
  "chunks k xs = (if k = 0 \<or> xs = [] then [] else take k xs # chunks k (drop k xs))"
  by pat_completeness auto
termination
  by (relation "measure (\<lambda>(k, xs). length xs)") auto

declare chunks.simps [simp del]

text \<open>
  \<^verbatim>\<open>np.frombuffer(buffer, dtype=t)\<close>: a one-dimensional array over the bytes; numpy
  raises \<^verbatim>\<open>ValueError\<close> when the buffer is not a whole number of elements.
\<close>

definition np_frombuffer :: "np_scalar \<Rightarrow> byte list \<Rightarrow> exn + ndarray" where
  "np_frombuffer t buffer =
     (if length buffer mod itemsize t \<noteq> 0
      then Inl (Exn ValueError ''buffer size must be a multiple of element size'')
      else Inr \<lparr>arr_dtype = t,
                arr_shape = [length buffer div itemsize t],
                arr_data = chunks (itemsize t) buffer\<rparr>)"

text \<open>
  \<^verbatim>\<open>np.resize(a, new_shape)\<close>, after numpy's source: the array is ravelled; a negative
  dimension raises \<^verbatim>\<open>ValueError\<close> (numpy 1.20 and later); an empty array or an empty
  new shape gives zeros; otherwise the elements are repeated \<open>\<lceil>new_size / size\<rceil>\<close>
  times, cut to \<open>new_size\<close> and reshaped.
\<close>

definition np_resize :: "ndarray \<Rightarrow> int list \<Rightarrow> exn + ndarray" where
  "np_resize a new_shape =
     (if list_ex (\<lambda>d. d < 0) new_shape
      then Inl (Exn ValueError ''all elements of new_shape must be non-negative'')
      else
        let new_size = nat (prod_list new_shape);
            size = length (arr_data a)
        in if size = 0 \<or> new_size = 0
           then Inr \<lparr>arr_dtype = arr_dtype a,
                     arr_shape = map nat new_shape,
                     arr_data = replicate new_size (replicate (itemsize (arr_dtype a)) 0)\<rparr>
           else
             let repeats = (new_size + size - 1) div size
             in Inr \<lparr>arr_dtype = arr_dtype a,
                     arr_shape = map nat new_shape,
                     arr_data = take new_size (concat (replicate repeats (arr_data a)))\<rparr>)"

section \<open>Endpoint, plugin and dispatcher\<close>

text \<open>
  The fields of \<^verbatim>\<open>ModelEndpoint\<close> (declared in \<^verbatim>\<open>endpoints.py\<close>) that this module
  reads. \<^verbatim>\<open>preprocess_artifact\<close> is optional; an element type is given as a type
  object or by a name numpy resolves to one.
\<close>

record ModelEndpoint =
  serving_url :: string
  version :: string
  model_id :: string
  preprocess_artifact :: "string option"
  input_name :: string
  input_type :: py_type
  input_size :: "int list"
  output_name :: string
  output_type :: py_type

text \<open>
  The user's \<^verbatim>\<open>Preprocess\<close> instance: each method is there or not
  (\<^verbatim>\<open>hasattr\<close>, \<^verbatim>\<open>callable(getattr(..., 'load', None))\<close>). \<open>'v\<close> is the type of the
  values that pass through the pipeline, \<open>'s\<close> the type of the statistics callback.
\<close>

record ('v, 's) plugin =
  plug_preprocess :: "('v \<Rightarrow> 's \<Rightarrow> exn + 'v) option"
  plug_postprocess :: "('v \<Rightarrow> 's \<Rightarrow> exn + 'v) option"
  plug_process :: "('v \<Rightarrow> 's \<Rightarrow> exn + 'v) option"
  plug_load :: "(string \<Rightarrow> exn + 'v) option"

text \<open>
  The class attributes of \<^verbatim>\<open>BasePreprocessRequest\<close> that requests read:
  \<^verbatim>\<open>_server_config\<close> and \<^verbatim>\<open>_timeout\<close> (\<^verbatim>\<open>None\<close> in the class body).
\<close>

record base_cls =
  server_config :: "string \<rightharpoonup> string"
  cls_timeout :: "int option"

definition class_body :: base_cls where
  "class_body = \<lparr>server_config = Map.empty, cls_timeout = None\<rparr>"

definition default_serving_base_url :: string where
  "default_serving_base_url = ''http://127.0.0.1:8080/serve/''"

definition default_grpc_address :: string where
  "default_grpc_address = ''127.0.0.1:8001''"

text \<open>
  An instance: \<open>inst_timeout\<close> is the instance attribute \<^verbatim>\<open>_timeout\<close> when the
  instance has one. Reading \<^verbatim>\<open>self._timeout\<close> finds the instance attribute first and
  the class attribute otherwise.
\<close>

record ('v, 's) dispatcher =
  model_endpoint :: ModelEndpoint
  preprocess_obj :: "('v, 's) plugin option"
  model_obj :: "'v option"
  inst_timeout :: "int option"

definition self_timeout :: "base_cls \<Rightarrow> ('v, 's) dispatcher \<Rightarrow> int option" where
  "self_timeout cls self =
     (case inst_timeout self of Some t \<Rightarrow> Some t | None \<Rightarrow> cls_timeout cls)"

text \<open>\<^verbatim>\<open>self._preprocess is not None and hasattr(self._preprocess, name)\<close>\<close>

definition capability ::
  "(('v, 's) plugin \<Rightarrow> 'f option) \<Rightarrow> ('v, 's) dispatcher \<Rightarrow> 'f option" where
  "capability method self =
     (case preprocess_obj self of None \<Rightarrow> None | Some p \<Rightarrow> method p)"

definition preprocess :: "('v, 's) dispatcher \<Rightarrow> 'v \<Rightarrow> 's \<Rightarrow> exn + 'v" where
  "preprocess self request collect_custom_statistics_fn =
     (case capability plug_preprocess self of
        Some f \<Rightarrow> f request collect_custom_statistics_fn
      | None \<Rightarrow> Inr request)"

definition postprocess :: "('v, 's) dispatcher \<Rightarrow> 'v \<Rightarrow> 's \<Rightarrow> exn + 'v" where
  "postprocess self data collect_custom_statistics_fn =
     (case capability plug_postprocess self of
        Some f \<Rightarrow> f data collect_custom_statistics_fn
      | None \<Rightarrow> Inr data)"

section \<open>Construction and plugin loading\<close>

text \<open>
  \<^verbatim>\<open>int(float(os.environ.get('GUNICORN_SERVING_TIMEOUT', 600)) * 0.8)\<close>. The variable
  is modelled as a whole number of seconds when it is set; for such a value the
  floating-point product truncates to \<open>\<lfloor>8 t / 10\<rfloor>\<close>. Fractions and text that is not
  a number are outside the model.
\<close>

definition derive_timeout :: "nat option \<Rightarrow> int" where
  "derive_timeout GUNICORN_SERVING_TIMEOUT =
     int (((case GUNICORN_SERVING_TIMEOUT of None \<Rightarrow> 600 | Some t \<Rightarrow> t) * 8) div 10)"

text \<open>
  An artifact of the task: its recorded hash and \<^verbatim>\<open>get_local_copy\<close>. The method is
  clearml's \<^verbatim>\<open>Artifact.get_local_copy(extract_archive=True, raise_on_error=False,
  force_download=False)\<close>, so the call of line 48, which passes no argument, extracts an
  archive and does not force a download. It reads and writes a cache, and a later call
  need not return what an earlier one did: \<open>get_local_copy a n x f\<close> is the outcome of
  call number \<open>n\<close> (counted from 0) on the artifact, made with
  \<^verbatim>\<open>extract_archive=x\<close> and \<^verbatim>\<open>force_download=f\<close>.
\<close>

record artifact =
  art_hash :: "string option"
  get_local_copy :: "nat \<Rightarrow> bool \<Rightarrow> bool \<Rightarrow> exn + string"

record task =
  task_id :: string
  artifacts :: "string \<rightharpoonup> artifact"

text \<open>
  What loading reaches outside the module: \<^verbatim>\<open>sha256sum\<close> of a path; executing the
  file at a path as a module, which gives the module's \<^verbatim>\<open>Preprocess\<close> attribute when it
  has one, itself the outcome of setting \<^verbatim>\<open>send_request\<close> on it and calling it; and the
  local copy of the model with a given id.
\<close>

record ('v, 's) loader =
  sha256sum :: "string \<Rightarrow> exn + string option"
  exec_module :: "string \<Rightarrow> exn + (exn + ('v, 's) plugin) option"
  get_local_model_file :: "string \<Rightarrow> exn + string"

text \<open>
  What loading does that can be observed from outside: a call of \<^verbatim>\<open>get_local_copy\<close>
  with its two flags, a line printed, the execution of the file at a path.
\<close>

datatype loader_event =
  Fetch (extract_archive: bool) (force_download: bool) | Printed string | ExecModule string

definition bind_exn :: "exn + 'a \<Rightarrow> ('a \<Rightarrow> exn + 'b) \<Rightarrow> exn + 'b" where
  "bind_exn r f = (case r of Inl e \<Rightarrow> Inl e | Inr x \<Rightarrow> f x)"

definition squote :: string where
  "squote = [CHR 0x27]"

text \<open>
  Lines 48 to 63 of \<^verbatim>\<open>_instantiate_custom_preprocess_cls\<close>: the path of the file to
  load, with the calls of \<^verbatim>\<open>get_local_copy\<close> and the lines printed, in order.
\<close>

definition fetch_artifact ::
  "('v, 's) loader \<Rightarrow> string \<Rightarrow> artifact \<Rightarrow> (exn + string) \<times> loader_event list" where
  "fetch_artifact w name art =
     (case get_local_copy art 0 True False of
        Inl e \<Rightarrow> (Inl e, [Fetch True False])
      | Inr path \<Rightarrow>
          (case sha256sum w path of
             Inl e \<Rightarrow> (Inl e, [Fetch True False])
           | Inr file_hash \<Rightarrow>
               if file_hash \<noteq> art_hash art
               then (get_local_copy art 1 True True,
                     [Fetch True False,
                      Printed (''INFO: re-downloading artifact '' @ squote @ name @ squote
                               @ '' hash changed''),
                      Fetch True True])
               else (get_local_copy art 1 True False,
                     [Fetch True False, Fetch True False])))"

text \<open>
  Lines 69 to 76, given the module that was executed: take its \<^verbatim>\<open>Preprocess\<close>,
  instantiate it, call \<^verbatim>\<open>load\<close> when there is one.
\<close>

definition instantiate_plugin ::
  "('v, 's) loader \<Rightarrow> ModelEndpoint \<Rightarrow> ('v, 's) dispatcher
     \<Rightarrow> (exn + ('v, 's) plugin) option \<Rightarrow> exn + ('v, 's) dispatcher" where
  "instantiate_plugin w ep self module =
     (case module of
        None \<Rightarrow> Inl (Exn AttributeError ''module has no attribute Preprocess'')
      | Some Preprocess \<Rightarrow>
          bind_exn Preprocess (\<lambda>p.
            let self1 = self\<lparr>preprocess_obj := Some p\<rparr>
            in case plug_load p of
                 None \<Rightarrow> Inr self1
               | Some load \<Rightarrow>
                   bind_exn (get_local_model_file w (model_id ep)) (\<lambda>model_path.
                     bind_exn (load model_path) (\<lambda>model.
                       Inr (self1\<lparr>model_obj := Some model\<rparr>)))))"

text \<open>Lines 65 to 76: execute the file at the path as a module, then the above.\<close>

definition load_plugin ::
  "('v, 's) loader \<Rightarrow> ModelEndpoint \<Rightarrow> ('v, 's) dispatcher \<Rightarrow> string
     \<Rightarrow> exn + ('v, 's) dispatcher" where
  "load_plugin w ep self path =
     bind_exn (exec_module w path) (instantiate_plugin w ep self)"

definition instantiate_custom_preprocess_cls ::
  "('v, 's) loader \<Rightarrow> ModelEndpoint \<Rightarrow> task \<Rightarrow> string \<Rightarrow> ('v, 's) dispatcher
     \<Rightarrow> (exn + ('v, 's) dispatcher) \<times> loader_event list" where
  "instantiate_custom_preprocess_cls w ep tsk name self =
     (case artifacts tsk name of
        None \<Rightarrow> (Inl (Exn KeyError name), [])
      | Some art \<Rightarrow>
          (case fetch_artifact w name art of
             (Inl e, evs) \<Rightarrow> (Inl e, evs)
           | (Inr path, evs) \<Rightarrow> (load_plugin w ep self path, evs @ [ExecModule path])))"

text \<open>The exception that the handler of line 43 raises for the exception it caught.\<close>

definition configuration_error :: "string \<Rightarrow> exn \<Rightarrow> exn" where
  "configuration_error name ex =
     Exn ValueError (''Error: Failed loading preprocess code for '' @ squote @ name @ squote
                     @ '': '' @ str_exn ex)"

text \<open>
  \<^verbatim>\<open>BasePreprocessRequest.__init__\<close>. The assignment \<^verbatim>\<open>self._timeout = ...\<close> binds an
  attribute of the instance, so the class attributes are the same after the call and
  are not returned. An artifact name is truthy when it is a non-empty string. With no
  task, formatting the message reads \<^verbatim>\<open>task.id\<close> of \<^verbatim>\<open>None\<close>. The handler is
  \<^verbatim>\<open>except Exception\<close>: any other exception leaves the constructor as it is.
\<close>

definition base_init ::
  "base_cls \<Rightarrow> nat option \<Rightarrow> ('v, 's) loader \<Rightarrow> ModelEndpoint \<Rightarrow> task option
     \<Rightarrow> (exn + ('v, 's) dispatcher) \<times> loader_event list" where
  "base_init cls GUNICORN_SERVING_TIMEOUT w ep tsk =
     (let self0 = \<lparr>model_endpoint = ep, preprocess_obj = None, model_obj = None,
                   inst_timeout = None\<rparr>;
          self1 = (if self_timeout cls self0 = None
                   then self0\<lparr>inst_timeout := Some (derive_timeout GUNICORN_SERVING_TIMEOUT)\<rparr>
                   else self0)
      in case preprocess_artifact ep of
           None \<Rightarrow> (Inr self1, [])
         | Some name \<Rightarrow>
             if name = [] then (Inr self1, [])
             else
               (case tsk of
                  None \<Rightarrow> (Inl (Exn AttributeError
                                 ''NoneType object has no attribute id''), [])
                | Some t \<Rightarrow>
                    if name \<notin> dom (artifacts t)
                    then (Inl (Exn ValueError
                                (''Error: could not find preprocessing artifact '' @ squote
                                 @ name @ squote @ '' on Task id='' @ task_id t)), [])
                    else
                      (case instantiate_custom_preprocess_cls w ep t name self1 of
                         (Inl ex, evs) \<Rightarrow>
                           if is_Exception ex then (Inl (configuration_error name ex), evs)
                           else (Inl ex, evs)
                       | (Inr self2, evs) \<Rightarrow> (Inr self2, evs))))"

section \<open>The callback given to plugin code\<close>

text \<open>\<^verbatim>\<open>s.strip("/")\<close>\<close>

definition strip_slash :: "string \<Rightarrow> string" where
  "strip_slash s =
     rev (dropWhile (\<lambda>c. c = CHR ''/'') (rev (dropWhile (\<lambda>c. c = CHR ''/'') s)))"

text \<open>
  A response of \<^verbatim>\<open>requests\<close>: its status code and the outcome of \<^verbatim>\<open>.json()\<close>.
  \<^verbatim>\<open>Response.ok\<close> is false exactly when \<^verbatim>\<open>raise_for_status()\<close> raises, that is
  for a status from 400 to 599.
\<close>

record 'v http_response =
  status_code :: nat
  json :: "exn + 'v"

definition ok :: "'v http_response \<Rightarrow> bool" where
  "ok r = (\<not> (400 \<le> status_code r \<and> status_code r < 600))"

record 'v http_call =
  call_url :: string
  call_json :: "'v option"
  call_timeout :: "int option"

text \<open>
  \<^verbatim>\<open>BasePreprocessRequest._preprocess_send_request\<close>. \<open>request_post\<close> is
  \<^verbatim>\<open>requests.post\<close>: it returns a response or raises. The function returns its result
  and the POSTs it issued. The timeout it passes is the class attribute.
\<close>

definition send_request_url :: "base_cls \<Rightarrow> string \<Rightarrow> string option \<Rightarrow> string" where
  "send_request_url cls endpoint ver =
     (let endpoint1 = (case ver of
                         None \<Rightarrow> strip_slash endpoint
                       | Some v \<Rightarrow> if v = [] then strip_slash endpoint
                                   else strip_slash endpoint @ ''/'' @ strip_slash v);
          base_url = (case server_config cls ''base_serving_url'' of
                        None \<Rightarrow> strip_slash default_serving_base_url
                      | Some b \<Rightarrow> if b = [] then strip_slash default_serving_base_url
                                  else strip_slash b)
      in base_url @ ''/'' @ strip_slash endpoint1)"

definition preprocess_send_request ::
  "base_cls \<Rightarrow> (string \<Rightarrow> 'v option \<Rightarrow> int option \<Rightarrow> exn + 'v http_response)
     \<Rightarrow> string \<Rightarrow> string option \<Rightarrow> 'v option
     \<Rightarrow> (exn + 'v option) \<times> 'v http_call list" where
  "preprocess_send_request cls request_post endpoint ver data =
     (let url = send_request_url cls endpoint ver;
          call = \<lparr>call_url = url, call_json = data, call_timeout = cls_timeout cls\<rparr>
      in case request_post url data (cls_timeout cls) of
           Inl e \<Rightarrow> (Inl e, [call])
         | Inr return_value \<Rightarrow>
             if \<not> ok return_value then (Inr None, [call])
             else (case json return_value of
                     Inl e \<Rightarrow> (Inl e, [call])
                   | Inr j \<Rightarrow> (Inr (Some j), [call])))"

section \<open>The remote tensor server\<close>

record InferInputTensor =
  in_name :: string
  in_datatype :: string
  in_shape :: "int list"
  in_contents :: "contents_field \<Rightarrow> elem list"

record ModelInferRequest =
  model_name :: string
  model_version :: string
  req_inputs :: "InferInputTensor list"
  req_outputs :: "string list"

record InferOutputTensor =
  out_name :: string
  out_shape :: "int list"

record ModelInferResponse =
  resp_outputs :: "InferOutputTensor list"
  raw_output_contents :: "byte list list"

datatype compression = NoCompression | Deflate | Gzip

record rpc_call =
  rpc_address :: string
  rpc_request :: ModelInferRequest
  rpc_compression :: compression
  rpc_timeout :: "int option"

text \<open>
  What \<^verbatim>\<open>process\<close> reaches outside the module: \<^verbatim>\<open>np.array(data, dtype=t)\<close>, the
  coercion of the data to an array of element type \<open>t\<close>; tritonclient's
  \<^verbatim>\<open>np_to_triton_dtype\<close>, the wire name of an element type or \<^verbatim>\<open>None\<close>; opening a
  channel and its stub; and the call \<^verbatim>\<open>ModelInfer\<close> on the stub.
\<close>

record 'v triton_ext =
  np_array :: "np_scalar \<Rightarrow> 'v \<Rightarrow> exn + ndarray"
  np_to_triton_dtype :: "np_scalar \<Rightarrow> exn + string option"
  insecure_channel :: "string \<Rightarrow> exn + unit"
  ModelInfer :: "string \<Rightarrow> ModelInferRequest \<Rightarrow> int option \<Rightarrow> exn + ModelInferResponse"

text \<open>
  Line 274 writes the elements into a typed repeated field of the message, and the
  field checks each value it is given. The integer fields refuse a value outside the
  range of their wire type with \<^verbatim>\<open>ValueError\<close> and a value that is not an integer
  with \<^verbatim>\<open>TypeError\<close>; the other fields take what the table sends them. The integer
  an element stands for is read from its bytes, least significant byte first, in two's
  complement for the signed types.
\<close>

definition le_value :: "elem \<Rightarrow> nat" where
  "le_value e = foldr (\<lambda>b acc. unat b + 256 * acc) e 0"

fun int_value :: "np_scalar \<Rightarrow> elem \<Rightarrow> int option" where
  "int_value numpy_bool e = Some (int (le_value e))"
| "int_value numpy_uint8 e = Some (int (le_value e))"
| "int_value numpy_uint16 e = Some (int (le_value e))"
| "int_value numpy_uint32 e = Some (int (le_value e))"
| "int_value numpy_uint64 e = Some (int (le_value e))"
| "int_value numpy_int8 e =
     Some (if le_value e < 2 ^ 7 then int (le_value e) else int (le_value e) - 2 ^ 8)"
| "int_value numpy_int16 e =
     Some (if le_value e < 2 ^ 15 then int (le_value e) else int (le_value e) - 2 ^ 16)"
| "int_value numpy_int32 e =
     Some (if le_value e < 2 ^ 31 then int (le_value e) else int (le_value e) - 2 ^ 32)"
| "int_value numpy_int64 e =
     Some (if le_value e < 2 ^ 63 then int (le_value e) else int (le_value e) - 2 ^ 64)"
| "int_value numpy_float16 e = None"
| "int_value numpy_float32 e = None"
| "int_value numpy_float64 e = None"
| "int_value numpy_complex64 e = None"
| "int_value numpy_complex128 e = None"

fun field_range :: "contents_field \<Rightarrow> (int \<times> int) option" where
  "field_range int_contents = Some (- (2 ^ 31), 2 ^ 31)"
| "field_range int64_contents = Some (- (2 ^ 63), 2 ^ 63)"
| "field_range uint_contents = Some (0, 2 ^ 32)"
| "field_range uint64_contents = Some (0, 2 ^ 64)"
| "field_range bool_contents = None"
| "field_range fp32_contents = None"
| "field_range fp64_contents = None"
| "field_range bytes_contents = None"

definition check_value :: "contents_field \<Rightarrow> np_scalar \<Rightarrow> elem \<Rightarrow> exn option" where
  "check_value field t e =
     (case field_range field of
        None \<Rightarrow> None
      | Some (lo, hi) \<Rightarrow>
          (case int_value t e of
             None \<Rightarrow> Some (Exn TypeError ''value has a type the field does not accept'')
           | Some v \<Rightarrow> if lo \<le> v \<and> v < hi then None
                       else Some (Exn ValueError ''Value out of range'')))"

fun check_values :: "contents_field \<Rightarrow> np_scalar \<Rightarrow> elem list \<Rightarrow> exn option" where
  "check_values field t [] = None"
| "check_values field t (e # es) =
     (case check_value field t e of Some ex \<Rightarrow> Some ex | None \<Rightarrow> check_values field t es)"

text \<open>
  Lines 253 to 283: the request. Line 266 calls \<^verbatim>\<open>np_to_triton_dtype\<close> before the
  table is read at line 270; assigning \<^verbatim>\<open>None\<close> to the string field \<^verbatim>\<open>datatype\<close>
  raises \<^verbatim>\<open>TypeError\<close>. The table is read at the scalar type
  \<^verbatim>\<open>np.dtype(input_type).type\<close>. Every contents field of a new message is empty.
\<close>

definition build_request ::
  "c_data_model \<Rightarrow> 'v triton_ext \<Rightarrow> ModelEndpoint \<Rightarrow> 'v \<Rightarrow> exn + ModelInferRequest" where
  "build_request m ext ep data =
     bind_exn (np_array ext (np_dtype_type m (input_type ep)) data) (\<lambda>input_data.
       let input_dtype = np_dtype_type m (input_type ep)
       in bind_exn (np_to_triton_dtype ext input_dtype) (\<lambda>triton_name.
            case triton_name of
              None \<Rightarrow> Inl (Exn TypeError ''None has type NoneType, but expected one of: bytes, unicode'')
            | Some dt_name \<Rightarrow>
                (case content_lookup m (NP input_dtype) of
                   None \<Rightarrow> Inl (Exn ValueError
                               (''Input type nt supported '' @ type_repr input_dtype))
                 | Some input_func \<Rightarrow>
                     (case check_values input_func input_dtype
                             (arr_data (flatten input_data)) of
                        Some ex \<Rightarrow> Inl ex
                      | None \<Rightarrow>
                          Inr \<lparr>model_name = strip_slash (serving_url ep @ ''/'' @ version ep),
                               model_version = ''1'',
                               req_inputs =
                                 [\<lparr>in_name = input_name ep,
                                   in_datatype = dt_name,
                                   in_shape = input_size ep,
                                   in_contents =
                                     (\<lambda>f. [])(input_func := arr_data (flatten input_data))\<rparr>],
                               req_outputs = [output_name ep]\<rparr>))))"

text \<open>One pass of the loop over \<^verbatim>\<open>response.outputs\<close>: decode a buffer, resize it.\<close>

definition decode_output :: "np_scalar \<Rightarrow> byte list \<Rightarrow> int list \<Rightarrow> exn + ndarray" where
  "decode_output t buffer shape =
     bind_exn (np_frombuffer t buffer) (\<lambda>a. np_resize a shape)"

text \<open>
  The loop of lines 290 to 299, with its counter and its list of results. Reading
  \<^verbatim>\<open>raw_output_contents[index]\<close> past the end raises \<^verbatim>\<open>IndexError\<close>.
\<close>

fun decode_loop ::
  "np_scalar \<Rightarrow> byte list list \<Rightarrow> InferOutputTensor list \<Rightarrow> nat \<Rightarrow> ndarray list
     \<Rightarrow> exn + ndarray list \<times> nat" where
  "decode_loop t raw [] index output_results = Inr (output_results, index)"
| "decode_loop t raw (output # rest) index output_results =
     (if length raw \<le> index then Inl (Exn IndexError ''list index out of range'')
      else case decode_output t (raw ! index) (out_shape output) of
             Inl e \<Rightarrow> Inl e
           | Inr a \<Rightarrow> decode_loop t raw rest (index + 1) (output_results @ [a]))"

text \<open>What \<^verbatim>\<open>process\<close> returns: the plugin's value, one array, or a list of arrays.\<close>

datatype 'v process_result = FromPlugin 'v | Single ndarray | Many "ndarray list"

definition decode_response ::
  "c_data_model \<Rightarrow> ModelEndpoint \<Rightarrow> ModelInferResponse \<Rightarrow> exn + 'v process_result" where
  "decode_response m ep response =
     (case decode_loop (np_dtype_type m (output_type ep)) (raw_output_contents response)
             (resp_outputs response) 0 [] of
        Inl e \<Rightarrow> Inl e
      | Inr (output_results, index) \<Rightarrow>
          Inr (if index = 1 then Single (output_results ! 0) else Many output_results))"

text \<open>\<^verbatim>\<open>self._server_config.get("triton_grpc_server") or self._default_grpc_address\<close>\<close>

definition triton_address :: "base_cls \<Rightarrow> string" where
  "triton_address cls =
     (case server_config cls ''triton_grpc_server'' of
        None \<Rightarrow> default_grpc_address
      | Some a \<Rightarrow> if a = [] then default_grpc_address else a)"

text \<open>
  \<^verbatim>\<open>TritonPreprocessRequest.process\<close>: the result and the calls made on the stub.
  The handler around the opening of the channel is \<^verbatim>\<open>except Exception\<close>.
\<close>

definition triton_process ::
  "c_data_model \<Rightarrow> 'v triton_ext \<Rightarrow> base_cls \<Rightarrow> ('v, 's) dispatcher \<Rightarrow> 'v \<Rightarrow> 's
     \<Rightarrow> (exn + 'v process_result) \<times> rpc_call list" where
  "triton_process m ext cls self data collect_custom_statistics_fn =
     (case capability plug_process self of
        Some f \<Rightarrow>
          (case f data collect_custom_statistics_fn of
             Inl e \<Rightarrow> (Inl e, [])
           | Inr r \<Rightarrow> (Inr (FromPlugin r), []))
      | None \<Rightarrow>
          let triton_server_address = triton_address cls
          in if triton_server_address = []
             then (Inl (Exn ValueError ''External Triton gRPC server is not configured!''), [])
             else
               (case insecure_channel ext triton_server_address of
                  Inl ex \<Rightarrow>
                    if is_Exception ex
                    then (Inl (Exn ValueError
                                 (''External Triton gRPC server misconfigured [''
                                  @ triton_server_address @ '']: '' @ str_exn ex)), [])
                    else (Inl ex, [])
                | Inr grpc_stub \<Rightarrow>
                    (case build_request m ext (model_endpoint self) data of
                       Inl e \<Rightarrow> (Inl e, [])
                     | Inr request \<Rightarrow>
                         let call = \<lparr>rpc_address = triton_server_address,
                                     rpc_request = request,
                                     rpc_compression = Gzip,
                                     rpc_timeout = self_timeout cls self\<rparr>
                         in (case ModelInfer ext triton_server_address request
                                    (self_timeout cls self) of
                               Inl e \<Rightarrow> (Inl e, [call])
                             | Inr response \<Rightarrow>
                                 (decode_response m (model_endpoint self) response,
                                  [call])))))"

section \<open>Example values\<close>

text \<open>
  Concrete collaborators, used where a statement is evaluated at an input. The data of a
  request is a list of elements, which \<open>example_np_array\<close> takes as a one-dimensional
  array. \<open>tritonclient_names\<close> is \<^verbatim>\<open>np_to_triton_dtype\<close> of tritonclient, called as
  line 266 calls it, with the scalar type itself: it compares its argument with
  \<^verbatim>\<open>bool\<close> and with numpy's sized integer and float types, and for any other argument
  goes on to read the argument's attribute \<^verbatim>\<open>type\<close>, which a scalar type does not have.
  \<^verbatim>\<open>np.bool_\<close> is not \<^verbatim>\<open>bool\<close>, so for it, as for the complex types, the call raises
  \<^verbatim>\<open>AttributeError\<close>.
\<close>

definition example_endpoint :: "py_type \<Rightarrow> string option \<Rightarrow> ModelEndpoint" where
  "example_endpoint t art =
     \<lparr>serving_url = ''test_model'', version = ''1'', model_id = ''model-1'',
      preprocess_artifact = art, input_name = ''input'', input_type = t,
      input_size = [1, 2], output_name = ''output'', output_type = t\<rparr>"

definition example_np_array :: "np_scalar \<Rightarrow> elem list \<Rightarrow> exn + ndarray" where
  "example_np_array t d = Inr \<lparr>arr_dtype = t, arr_shape = [length d], arr_data = d\<rparr>"

definition no_type_attribute :: "string \<Rightarrow> exn" where
  "no_type_attribute name =
     Exn AttributeError (''type object '' @ squote @ name @ squote
                         @ '' has no attribute '' @ squote @ ''type'' @ squote)"

fun tritonclient_names :: "np_scalar \<Rightarrow> exn + string option" where
  "tritonclient_names numpy_bool = Inl (no_type_attribute ''numpy.bool_'')"
| "tritonclient_names numpy_int8 = Inr (Some ''INT8'')"
| "tritonclient_names numpy_int16 = Inr (Some ''INT16'')"
| "tritonclient_names numpy_int32 = Inr (Some ''INT32'')"
| "tritonclient_names numpy_int64 = Inr (Some ''INT64'')"
| "tritonclient_names numpy_uint8 = Inr (Some ''UINT8'')"
| "tritonclient_names numpy_uint16 = Inr (Some ''UINT16'')"
| "tritonclient_names numpy_uint32 = Inr (Some ''UINT32'')"
| "tritonclient_names numpy_uint64 = Inr (Some ''UINT64'')"
| "tritonclient_names numpy_float16 = Inr (Some ''FP16'')"
| "tritonclient_names numpy_float32 = Inr (Some ''FP32'')"
| "tritonclient_names numpy_float64 = Inr (Some ''FP64'')"
| "tritonclient_names numpy_complex64 = Inl (no_type_attribute ''numpy.complex64'')"
| "tritonclient_names numpy_complex128 = Inl (no_type_attribute ''numpy.complex128'')"

definition example_ext :: "ModelInferResponse \<Rightarrow> (elem list) triton_ext" where
  "example_ext response =
     \<lparr>np_array = example_np_array,
      np_to_triton_dtype = tritonclient_names,
      insecure_channel = (\<lambda>address. Inr ()),
      ModelInfer = (\<lambda>address request timeout. Inr response)\<rparr>"


definition single_response :: ModelInferResponse where
  "single_response =
     \<lparr>resp_outputs = [\<lparr>out_name = ''output'', out_shape = [1, 2]\<rparr>],
      raw_output_contents = [[1, 2]]\<rparr>"

text \<open>
  A plugin with a \<open>load\<close> method that gives the outcome \<open>r\<close>; a loader whose three
  collaborators give fixed outcomes; an artifact with recorded hash \<open>h\<close> whose call
  number \<open>n\<close> gives \<open>copies n\<close>; a task that holds one artifact, \<open>pre\<close>.
\<close>

definition loading_plugin :: "(exn + elem list) \<Rightarrow> (elem list, unit) plugin" where
  "loading_plugin r =
     \<lparr>plug_preprocess = None, plug_postprocess = None, plug_process = None,
      plug_load = Some (\<lambda>path. r)\<rparr>"

definition failing_load_plugin :: "(elem list, unit) plugin" where
  "failing_load_plugin =
     \<lparr>plug_preprocess = None, plug_postprocess = None, plug_process = None,
      plug_load = Some (\<lambda>path. Inl (Exn IOError ''cannot read model''))\<rparr>"

definition loader_of ::
  "(exn + string option) \<Rightarrow> (exn + (exn + (elem list, unit) plugin) option)
     \<Rightarrow> (exn + string) \<Rightarrow> (elem list, unit) loader" where
  "loader_of hash module model_file =
     \<lparr>sha256sum = (\<lambda>path. hash),
      exec_module = (\<lambda>path. module),
      get_local_model_file = (\<lambda>model_id. model_file)\<rparr>"

definition example_loader :: "(elem list, unit) loader" where
  "example_loader =
     loader_of (Inr (Some ''abc'')) (Inr (Some (Inr failing_load_plugin)))
       (Inr ''/cache/model.bin'')"

definition artifact_of :: "string \<Rightarrow> (nat \<Rightarrow> exn + string) \<Rightarrow> artifact" where
  "artifact_of h copies =
     \<lparr>art_hash = Some h,
      get_local_copy = (\<lambda>n extract_archive force_download. copies n)\<rparr>"

definition example_artifact :: "string \<Rightarrow> artifact" where
  "example_artifact h = artifact_of h (\<lambda>n. Inr ''/cache/preprocess.py'')"

definition task_of :: "artifact \<Rightarrow> task" where
  "task_of art = \<lparr>task_id = ''t1'', artifacts = [''pre'' \<mapsto> art]\<rparr>"

definition example_task :: "string \<Rightarrow> task" where
  "example_task h = task_of (example_artifact h)"

definition refusing_post ::
  "string \<Rightarrow> (elem list) option \<Rightarrow> int option \<Rightarrow> exn + (elem list) http_response" where
  "refusing_post url data timeout = Inl (Exn ConnectionError ''Connection refused'')"

definition answering_post ::
  "nat \<Rightarrow> string \<Rightarrow> (elem list) option \<Rightarrow> int option \<Rightarrow> exn + (elem list) http_response" where
  "answering_post status url data timeout = Inr \<lparr>status_code = status, json = Inr [[1]]\<rparr>"

definition example_dispatcher :: "py_type \<Rightarrow> (elem list, unit) dispatcher" where
  "example_dispatcher t =
     \<lparr>model_endpoint = example_endpoint t None, preprocess_obj = None, model_obj = None,
      inst_timeout = Some 480\<rparr>"

section \<open>Properties of the registry\<close>

lemma lookup_register_engine:
  "preprocessing_lookup (register_engine n ms c reg) = (preprocessing_lookup reg)(n \<mapsto> c)"
  by (simp add: register_engine_def Let_def split: option.splits)

lemma dom_register_all:
  "dom (preprocessing_lookup (register_all regs reg)) =
     dom (preprocessing_lookup reg) \<union> fst ` set regs"
proof (induction regs arbitrary: reg)
  case Nil
  show ?case by simp
next
  case (Cons r regs)
  obtain n ms c where r: "r = (n, ms, c)" by (cases r)
  show ?case
    unfolding r register_all.simps Cons.IH lookup_register_engine by auto
qed

text \<open>
  C9. The registry resolves a name to a class exactly when it reports the name as
  supported, whatever the registry holds; and after any sequence of registrations from
  the empty registry, a name that is not among those registered is reported unsupported
  and resolves to nothing.
\<close>

theorem resolve_iff_supported:
  "((get_engine_cls reg engine \<noteq> None) = validate_engine_type reg engine) \<and>
   (engine \<notin> fst ` set regs \<longrightarrow>
      \<not> validate_engine_type (register_all regs empty_registry) engine \<and>
      get_engine_cls (register_all regs empty_registry) engine = None)"
proof -
  have a: "(get_engine_cls reg engine \<noteq> None) = validate_engine_type reg engine"
    by (auto simp: get_engine_cls_def validate_engine_type_def)
  have b: "engine \<notin> dom (preprocessing_lookup (register_all regs empty_registry))"
    if "engine \<notin> fst ` set regs"
    using that by (simp add: dom_register_all empty_registry_def)
  show ?thesis
    using a b by (auto simp: get_engine_cls_def validate_engine_type_def)
qed

theorem resolve_iff_supported_witness:
  "''onnx'' \<notin> fst ` set module_registrations \<and>
   \<not> validate_engine_type module_registry ''onnx'' \<and>
   get_engine_cls module_registry ''onnx'' = None \<and>
   validate_engine_type module_registry ''triton'' \<and>
   get_engine_cls module_registry ''triton'' = Some TritonPreprocessRequest"
proof -
  have n: "''onnx'' \<notin> fst ` set module_registrations"
    by (simp add: module_registrations_def)
  have t: "get_engine_cls module_registry ''triton'' = Some TritonPreprocessRequest"
    by (simp add: module_registry_def module_registrations_def get_engine_cls_def
        lookup_register_engine)
  have v: "validate_engine_type module_registry ''triton''"
    using resolve_iff_supported [of module_registry "''triton''" "[]"] t by simp
  from resolve_iff_supported [of module_registry "''onnx''" module_registrations]
  show ?thesis using n t v by (simp add: module_registry_def)
qed

section \<open>Properties of the array operations\<close>

lemma chunks_concat:
  "0 < k \<Longrightarrow> list_all (\<lambda>e. length e = k) xs \<Longrightarrow> chunks k (concat xs) = xs"
proof (induction xs)
  case Nil
  then show ?case by (simp add: chunks.simps)
next
  case (Cons x xs)
  then show ?case by (subst chunks.simps) auto
qed

lemma length_concat_uniform:
  "list_all (\<lambda>e. length e = k) xs \<Longrightarrow> length (concat xs) = length xs * k"
  by (induction xs) auto

lemma length_chunks:
  "0 < k \<Longrightarrow> length xs mod k = 0 \<Longrightarrow> length (chunks k xs) = length xs div k"
proof (induction k xs rule: chunks.induct)
  case (1 k xs)
  show ?case
  proof (cases "xs = []")
    case True
    then show ?thesis by (simp add: chunks.simps)
  next
    case False
    with 1(2,3) have le: "k \<le> length xs"
      by (metis length_greater_0_conv mod_less not_le_imp_less less_numeral_extra(3))
    have m: "length (drop k xs) mod k = 0"
      using 1(3) le by (simp add: le_mod_geq)
    have "length (chunks k (drop k xs)) = length (drop k xs) div k"
      using 1(1) [OF _ 1(2) m] False 1(2) by simp
    then show ?thesis
      using False 1(2) le by (subst chunks.simps) (simp add: le_div_geq)
  qed
qed

lemma nth_concat_replicate:
  "k < r * length xs \<Longrightarrow> concat (replicate r xs) ! k = xs ! (k mod length xs)"
proof (induction r arbitrary: k)
  case 0
  then show ?case by simp
next
  case (Suc r)
  show ?case
  proof (cases "k < length xs")
    case True
    then show ?thesis by (simp add: nth_append)
  next
    case False
    then have "k - length xs < r * length xs" using Suc.prems by simp
    from Suc.IH [OF this] False show ?thesis
      by (simp add: nth_append le_mod_geq)
  qed
qed

lemma length_concat_replicate: "length (concat (replicate r xs)) = r * length xs"
  by (induction r) auto

lemma ceil_bound: "0 < (s::nat) \<Longrightarrow> n \<le> (n + s - 1) div s * s"
proof -
  assume s: "0 < s"
  have "(n + s - 1) div s * s = (n + s - 1) - (n + s - 1) mod s"
    by (simp add: minus_mod_eq_div_mult)
  moreover have "(n + s - 1) mod s \<le> s - 1"
    using s by (simp add: Suc_leI le_diff_conv2 mod_less_divisor less_Suc_eq_le[symmetric])
  ultimately show ?thesis using s by linarith
qed

lemma itemsize_pos: "0 < itemsize t"
  by (cases t) simp_all

lemma prod_list_map_int: "prod_list (map int xs) = int (prod_list xs)"
  by (induction xs) simp_all

lemma map_int_nat: "list_all (\<lambda>d. 0 \<le> d) ds \<Longrightarrow> map int (map nat ds) = ds"
  by (induction ds) simp_all

lemma no_negative: "list_all (\<lambda>d. 0 \<le> d) ds \<Longrightarrow> \<not> list_ex (\<lambda>d. d < (0::int)) ds"
  by (induction ds) simp_all

lemma np_frombuffer_whole:
  "length buffer mod itemsize t = 0 \<Longrightarrow>
   np_frombuffer t buffer =
     Inr \<lparr>arr_dtype = t, arr_shape = [length buffer div itemsize t],
          arr_data = chunks (itemsize t) buffer\<rparr>"
  by (simp add: np_frombuffer_def)

lemma np_resize_shape:
  assumes "list_all (\<lambda>d. 0 \<le> d) shape" and "arr_data a = xs" and "arr_dtype a = t"
  shows "\<exists>b. np_resize a shape = Inr b \<and> arr_dtype b = t \<and>
           map int (arr_shape b) = shape \<and>
           length (arr_data b) = nat (prod_list shape) \<and>
           (\<forall>k<nat (prod_list shape).
              arr_data b ! k =
                (if xs = [] then replicate (itemsize t) 0 else xs ! (k mod length xs)))"
proof -
  let ?n = "nat (prod_list shape)"
  let ?s = "length xs"
  note nn = no_negative [OF assms(1)]
  note mi = map_int_nat [OF assms(1)]
  show ?thesis
  proof (cases "?s = 0 \<or> ?n = 0")
    case True
    then show ?thesis
      using nn mi assms(2,3) by (auto simp: np_resize_def Let_def)
  next
    case False
    then have s: "0 < ?s" and n: "0 < ?n" by auto
    let ?r = "(?n + ?s - 1) div ?s"
    have le: "?n \<le> ?r * ?s" using ceil_bound [OF s] .
    have len: "length (take ?n (concat (replicate ?r xs))) = ?n"
      using le by (simp add: length_concat_replicate)
    have nth: "take ?n (concat (replicate ?r xs)) ! k = xs ! (k mod ?s)"
      if "k < ?n" for k
      using that le by (simp add: nth_concat_replicate)
    have ne: "xs \<noteq> []" using s by auto
    show ?thesis
      using False nn mi len nth ne assms(2,3) by (simp add: np_resize_def Let_def)
  qed
qed

text \<open>
  A response buffer that holds the bytes of a well-formed array, decoded with the array's
  own element type and shape, gives the array back: same type, same shape, same
  elements.
\<close>

lemma tensor_round_trip:
  assumes "wf_ndarray a"
  shows "decode_output (arr_dtype a) (tobytes a) (map int (arr_shape a)) = Inr a"
proof -
  let ?t = "arr_dtype a"
  let ?k = "itemsize ?t"
  from assms have len: "length (arr_data a) = prod_list (arr_shape a)"
    and all: "list_all (\<lambda>e. length e = ?k) (arr_data a)"
    by (simp_all add: wf_ndarray_def)
  have lc: "length (tobytes a) = length (arr_data a) * ?k"
    by (simp add: tobytes_def length_concat_uniform [OF all])
  have ch: "chunks ?k (tobytes a) = arr_data a"
    by (simp add: tobytes_def chunks_concat [OF itemsize_pos all])
  have fb: "np_frombuffer ?t (tobytes a) =
      Inr \<lparr>arr_dtype = ?t, arr_shape = [length (arr_data a)], arr_data = arr_data a\<rparr>"
    using itemsize_pos [of ?t] by (simp add: np_frombuffer_def lc ch)
  have nn: "\<not> list_ex (\<lambda>d. d < 0) (map int (arr_shape a))"
    by (simp add: list_ex_iff)
  have sz: "nat (prod_list (map int (arr_shape a))) = length (arr_data a)"
    by (simp add: prod_list_map_int len)
  have rs: "np_resize \<lparr>arr_dtype = ?t, arr_shape = [length (arr_data a)],
                        arr_data = arr_data a\<rparr> (map int (arr_shape a)) = Inr a"
  proof (cases "length (arr_data a) = 0")
    case True
    then show ?thesis
      using nn sz by (simp add: np_resize_def Let_def comp_def)
  next
    case False
    then have "(length (arr_data a) + length (arr_data a) - 1) div length (arr_data a) = 1"
      by (intro div_nat_eqI) simp_all
    then show ?thesis
      using False nn sz by (simp add: np_resize_def Let_def comp_def)
  qed
  show ?thesis
    by (simp add: decode_output_def bind_exn_def fb rs)
qed

section \<open>Properties of the pipeline stages\<close>

text \<open>
  C5. With no plugin loaded, or with a plugin that lacks the method, \<open>preprocess\<close>
  returns the request it was given and \<open>postprocess\<close> returns the data it was given,
  for every value and every statistics callback.
\<close>

theorem stages_default_to_identity:
  "((preprocess_obj self = None \<or>
      (\<exists>p. preprocess_obj self = Some p \<and> plug_preprocess p = None))
     \<longrightarrow> preprocess self request fn = Inr request) \<and>
   ((preprocess_obj self = None \<or>
      (\<exists>p. preprocess_obj self = Some p \<and> plug_postprocess p = None))
     \<longrightarrow> postprocess self data fn = Inr data)"
  by (auto simp: preprocess_def postprocess_def capability_def)

theorem stages_default_to_identity_witness:
  "preprocess \<lparr>model_endpoint = example_endpoint (NP numpy_float32) None,
               preprocess_obj = None, model_obj = None, inst_timeout = Some 480\<rparr>
     [[1::byte]] () = Inr [[1]] \<and>
   postprocess \<lparr>model_endpoint = example_endpoint (NP numpy_float32) None,
                preprocess_obj = Some failing_load_plugin, model_obj = None,
                inst_timeout = Some 480\<rparr>
     [[2::byte]] () = Inr [[2]]"
  using stages_default_to_identity
    [of "\<lparr>model_endpoint = example_endpoint (NP numpy_float32) None,
          preprocess_obj = None, model_obj = None, inst_timeout = Some 480\<rparr>"
        "[[1::byte]]" "()" "[[2::byte]]"]
    stages_default_to_identity
    [of "\<lparr>model_endpoint = example_endpoint (NP numpy_float32) None,
          preprocess_obj = Some failing_load_plugin, model_obj = None,
          inst_timeout = Some 480\<rparr>"
        "[[1::byte]]" "()" "[[2::byte]]"]
  by (simp add: failing_load_plugin_def)


section \<open>Properties of the remote tensor adapter\<close>


lemma triton_address_nonempty: "triton_address cls \<noteq> []"
  by (simp add: triton_address_def default_grpc_address_def split: option.splits)



text \<open>
  C10, as amended. For a buffer that holds a whole number of elements and a declared
  shape with no negative dimension, decoding succeeds whatever the number of elements,
  and the array has the declared shape: element \<open>k\<close> of the result is element
  \<open>k mod n\<close> of the \<open>n\<close> elements of the buffer (the buffer cut when it is too long,
  repeated in a cycle when it is too short), and the zero element when the buffer is
  empty.
\<close>

theorem decode_output_shape:
  assumes "length buffer mod itemsize t = 0" and "list_all (\<lambda>d. 0 \<le> d) shape"
  shows "\<exists>a. decode_output t buffer shape = Inr a \<and> arr_dtype a = t \<and>
           map int (arr_shape a) = shape \<and>
           length (arr_data a) = nat (prod_list shape) \<and>
           (\<forall>k<nat (prod_list shape).
              arr_data a ! k =
                (if buffer = [] then replicate (itemsize t) 0
                 else chunks (itemsize t) buffer ! (k mod (length buffer div itemsize t))))"
proof -
  let ?a = "\<lparr>arr_dtype = t, arr_shape = [length buffer div itemsize t],
             arr_data = chunks (itemsize t) buffer\<rparr>"
  have d: "decode_output t buffer shape = np_resize ?a shape"
    by (simp add: decode_output_def bind_exn_def np_frombuffer_whole [OF assms(1)])
  have l: "length (chunks (itemsize t) buffer) = length buffer div itemsize t"
    by (rule length_chunks [OF itemsize_pos assms(1)])
  have e: "(chunks (itemsize t) buffer = []) = (buffer = [])"
  proof
    assume "chunks (itemsize t) buffer = []"
    then show "buffer = []"
      using itemsize_pos [of t] by (subst (asm) chunks.simps) (simp split: if_splits)
  next
    assume "buffer = []"
    then show "chunks (itemsize t) buffer = []" by (simp add: chunks.simps)
  qed
  have r: "\<exists>b. np_resize ?a shape = Inr b \<and> arr_dtype b = t \<and>
           map int (arr_shape b) = shape \<and>
           length (arr_data b) = nat (prod_list shape) \<and>
           (\<forall>k<nat (prod_list shape).
              arr_data b ! k =
                (if chunks (itemsize t) buffer = [] then replicate (itemsize t) 0
                 else chunks (itemsize t) buffer ! (k mod length (chunks (itemsize t) buffer))))"
    by (rule np_resize_shape [OF assms(2)]) simp_all
  show ?thesis
    using r unfolding d l e .
qed

theorem decode_output_shape_witness:
  "length [1, 2, 3 :: byte] mod itemsize numpy_uint8 = 0 \<and>
   list_all (\<lambda>d. 0 \<le> d) [2, 4 :: int] \<and>
   decode_output numpy_uint8 [1, 2, 3] [2, 4] =
     Inr \<lparr>arr_dtype = numpy_uint8, arr_shape = [2, 4],
          arr_data = [[1], [2], [3], [1], [2], [3], [1], [2]]\<rparr> \<and>
   (\<exists>a. decode_output numpy_uint8 [1, 2, 3] [2, 4] = Inr a \<and>
        map int (arr_shape a) = [2, 4] \<and> length (arr_data a) = 8)"
proof -
  have h1: "length [1, 2, 3 :: byte] mod itemsize numpy_uint8 = 0" by simp
  have h2: "list_all (\<lambda>d. 0 \<le> d) [2, 4 :: int]" by simp
  have v: "decode_output numpy_uint8 [1, 2, 3] [2, 4] =
     Inr \<lparr>arr_dtype = numpy_uint8, arr_shape = [2, 4],
          arr_data = [[1], [2], [3], [1], [2], [3], [1], [2]]\<rparr>"
    by code_simp
  from decode_output_shape [OF h1 h2] have
    "\<exists>a. decode_output numpy_uint8 [1, 2, 3] [2, 4] = Inr a \<and>
        map int (arr_shape a) = [2, 4] \<and> length (arr_data a) = 8"
    by auto
  then show ?thesis using h1 h2 v by simp
qed


text \<open>
  The claim C10 as it was stated does not hold at three inputs: a buffer of five bytes
  is not a whole number of 32-bit floats and decoding it raises; an empty buffer is not
  repeated but gives zeros; and with a negative declared dimension no array is returned.
\<close>

theorem decode_size_mismatch_counterexample:
  "decode_output numpy_float32 [1, 2, 3, 4, 5] [1] =
     Inl (Exn ValueError ''buffer size must be a multiple of element size'') \<and>
   decode_output numpy_uint8 [] [2] =
     Inr \<lparr>arr_dtype = numpy_uint8, arr_shape = [2], arr_data = [[0], [0]]\<rparr> \<and>
   isl (decode_output numpy_uint8 [7] [- 1])"
  by code_simp


section \<open>The content-field table as the interpreter builds it\<close>

text \<open>
  The scalar types that have an entry, under each data model. \<^verbatim>\<open>np.bool_\<close> has none,
  because the key written \<^verbatim>\<open>np.bool\<close> is the builtin \<^verbatim>\<open>bool\<close>; where
  \<^verbatim>\<open>np.uint\<close> is \<^verbatim>\<open>np.uint64\<close> the later entry replaces the earlier one. The
  lemmas after them follow \<open>process\<close> up to the table: an exception of
  \<^verbatim>\<open>np_to_triton_dtype\<close> leaves before the table is read; a type that is named on the
  wire and has no entry raises the unsupported-type error; with no entry nothing is
  sent; with an entry and values the field accepts, the elements are in the field the
  table names and in no other.
\<close>

lemma content_lookup_LP64:
  "content_lookup LP64 (NP t) =
     (if t = numpy_uint8 \<or> t = numpy_uint64 then Some uint_contents
      else if t = numpy_int8 then Some int_contents
      else if t = numpy_int64 then Some int64_contents
      else if t = numpy_float32 then Some fp32_contents
      else if t = numpy_float64 then Some fp64_contents
      else None)"
  by (cases t) (simp_all add: content_lookup_def np_int_def np_uint_def np_bool_def)

lemma content_lookup_LLP64:
  "content_lookup LLP64 (NP t) =
     (if t = numpy_uint8 \<or> t = numpy_uint32 then Some uint_contents
      else if t = numpy_int8 then Some int_contents
      else if t = numpy_int64 then Some int64_contents
      else if t = numpy_uint64 then Some uint64_contents
      else if t = numpy_float32 then Some fp32_contents
      else if t = numpy_float64 then Some fp64_contents
      else None)"
  by (cases t) (simp_all add: content_lookup_def np_int_def np_uint_def np_bool_def)

lemma unsupported_type_raises:
  assumes "capability plug_process self = None"
    and "insecure_channel ext (triton_address cls) = Inr stub"
    and "np_array ext (np_dtype_type m (input_type (model_endpoint self))) data = Inr a"
    and "np_to_triton_dtype ext (np_dtype_type m (input_type (model_endpoint self)))
           = Inr (Some name)"
    and "content_lookup m (NP (np_dtype_type m (input_type (model_endpoint self)))) = None"
  shows "triton_process m ext cls self data fn =
           (Inl (Exn ValueError (''Input type nt supported '' @
                   type_repr (np_dtype_type m (input_type (model_endpoint self))))), [])"
  using assms triton_address_nonempty [of cls]
  by (simp add: triton_process_def build_request_def bind_exn_def Let_def)

lemma no_entry_nothing_sent:
  assumes "capability plug_process self = None"
    and "content_lookup m (NP (np_dtype_type m (input_type (model_endpoint self)))) = None"
  shows "isl (fst (triton_process m ext cls self data fn)) \<and>
         snd (triton_process m ext cls self data fn) = []"
  using assms
  by (auto simp: triton_process_def build_request_def bind_exn_def Let_def
      split: sum.splits option.splits)

lemma entry_selects_field:
  assumes "build_request m ext ep data = Inr request"
  shows "\<exists>a f inp. np_array ext (np_dtype_type m (input_type ep)) data = Inr a \<and>
           content_lookup m (NP (np_dtype_type m (input_type ep))) = Some f \<and>
           req_inputs request = [inp] \<and> in_contents inp f = arr_data a \<and>
           (\<forall>g. g \<noteq> f \<longrightarrow> in_contents inp g = [])"
  using assms
  by (auto simp: build_request_def bind_exn_def Let_def flatten_def
      split: sum.splits option.splits)

lemma request_round_trip:
  assumes "build_request m ext ep data = Inr request"
    and "np_array ext (np_dtype_type m (input_type ep)) data = Inr a"
    and "wf_ndarray a"
    and "content_lookup m (NP (np_dtype_type m (input_type ep))) = Some f"
  shows "decode_output (arr_dtype a) (concat (in_contents (hd (req_inputs request)) f))
           (map int (arr_shape a)) = Inr a"
proof -
  from entry_selects_field [OF assms(1)] assms(2,4)
  have "in_contents (hd (req_inputs request)) f = arr_data a" by auto
  then show ?thesis
    using tensor_round_trip [OF assms(3)] by (simp add: tobytes_def)
qed

lemma wire_name_failure_raises:
  assumes "capability plug_process self = None"
    and "insecure_channel ext (triton_address cls) = Inr stub"
    and "np_array ext (np_dtype_type m (input_type (model_endpoint self))) data = Inr a"
    and "np_to_triton_dtype ext (np_dtype_type m (input_type (model_endpoint self))) = Inl e"
  shows "triton_process m ext cls self data fn = (Inl e, [])"
  using assms triton_address_nonempty [of cls]
  by (simp add: triton_process_def build_request_def bind_exn_def Let_def)

lemma int32_endpoint_unsupported:
  "triton_process LP64 (example_ext single_response) class_body
       (example_dispatcher (NP numpy_int32)) [[1, 0, 0, 0]] () =
     (Inl (Exn ValueError ''Input type nt supported <class 'numpy.int32'>''), [])"
  using unsupported_type_raises [of "example_dispatcher (NP numpy_int32)"
      "example_ext single_response" class_body "()" LP64 "[[1, 0, 0, 0]]"
      "\<lparr>arr_dtype = numpy_int32, arr_shape = [1], arr_data = [[1, 0, 0, 0]]\<rparr>" "''INT32''" "()"]
  by (simp add: capability_def example_dispatcher_def example_ext_def
      example_endpoint_def example_np_array_def content_lookup_LP64)

lemma complex_endpoint_attribute_error:
  "triton_process m (example_ext single_response) class_body
       (example_dispatcher (NP numpy_complex64)) [[1, 0, 0, 0, 0, 0, 0, 0]] () =
     (Inl (no_type_attribute ''numpy.complex64''), [])"
  using wire_name_failure_raises [of "example_dispatcher (NP numpy_complex64)"
      "example_ext single_response" class_body "()" m "[[1, 0, 0, 0, 0, 0, 0, 0]]"
      "\<lparr>arr_dtype = numpy_complex64, arr_shape = [1],
        arr_data = [[1, 0, 0, 0, 0, 0, 0, 0]]\<rparr>"
      "no_type_attribute ''numpy.complex64''" "()"]
  by (simp add: capability_def example_dispatcher_def example_ext_def
      example_endpoint_def example_np_array_def)

lemma uint64_tensor_out_of_range:
  "content_lookup LP64 (NP numpy_uint64) = Some uint_contents \<and>
   int_value numpy_uint64 [0, 0, 0, 0, 1, 0, 0, 0] = Some (2 ^ 32) \<and>
   build_request LP64 (example_ext single_response) (example_endpoint (NP numpy_uint64) None)
       [[0, 0, 0, 0, 1, 0, 0, 0]] =
     Inl (Exn ValueError ''Value out of range'')"
  by (simp add: build_request_def example_ext_def example_endpoint_def
      example_np_array_def bind_exn_def content_lookup_LP64 flatten_def check_value_def
      le_value_def)

text \<open>
  C2, evaluated at an endpoint whose element type is boolean. The table has an entry
  written for \<^verbatim>\<open>np.bool\<close> and none for \<^verbatim>\<open>np.bool_\<close>, the type \<open>process\<close> works
  with; and before the table is read, line 266 asks tritonclient for the wire name of
  \<^verbatim>\<open>np.bool_\<close>, which raises \<^verbatim>\<open>AttributeError\<close>. \<open>process\<close> raises that error and
  sends nothing, where the claim places the contents in \<open>bool_contents\<close>. Under LP64
  the entry for \<^verbatim>\<open>np.uint64\<close> names \<open>uint_contents\<close>, not \<open>uint64_contents\<close>.
\<close>

theorem bool_endpoint_unsupported:
  "content_lookup m np_bool = Some bool_contents \<and>
   content_lookup m (NP (np_dtype_type m builtin_bool)) = None \<and>
   content_lookup LP64 (NP numpy_uint64) = Some uint_contents \<and>
   triton_process m (example_ext single_response) class_body
       (example_dispatcher builtin_bool) [[1], [0]] () =
     (Inl (Exn AttributeError (''type object 'numpy.bool_' has no attribute 'type'' @ squote)),
      [])"
proof -
  have l: "content_lookup m (NP numpy_bool) = None"
    by (cases m) (simp_all add: content_lookup_def np_int_def np_uint_def np_bool_def)
  have p: "triton_process m (example_ext single_response) class_body
       (example_dispatcher builtin_bool) [[1], [0]] () =
     (Inl (no_type_attribute ''numpy.bool_''), [])"
    using wire_name_failure_raises [of "example_dispatcher builtin_bool"
        "example_ext single_response" class_body "()" m "[[1], [0]]"
        "\<lparr>arr_dtype = numpy_bool, arr_shape = [2], arr_data = [[1], [0]]\<rparr>"
        "no_type_attribute ''numpy.bool_''" "()"]
    by (simp add: capability_def example_dispatcher_def example_ext_def
        example_endpoint_def example_np_array_def)
  show ?thesis
    using l p
    by (simp add: content_lookup_def np_int_def np_uint_def np_bool_def
        no_type_attribute_def squote_def)
qed

text \<open>
  C1, evaluated at a well-formed boolean array: no request tensor is built from it, so
  there is nothing to decode and the round trip does not exist for this element type.
  For an array that is encoded, \<open>request_round_trip\<close> gives the round trip;
  \<open>uint64_tensor_out_of_range\<close> is an array of 64-bit unsigned integers that is not.
\<close>

theorem bool_tensor_not_encoded:
  "np_array (example_ext single_response) numpy_bool [[1], [0]] =
     Inr \<lparr>arr_dtype = numpy_bool, arr_shape = [2], arr_data = [[1], [0]]\<rparr> \<and>
   wf_ndarray \<lparr>arr_dtype = numpy_bool, arr_shape = [2], arr_data = [[1], [0]]\<rparr> \<and>
   build_request m (example_ext single_response) (example_endpoint (NP numpy_bool) None)
       [[1], [0]] =
     Inl (Exn AttributeError (''type object 'numpy.bool_' has no attribute 'type'' @ squote))"
  by (simp add: build_request_def example_ext_def example_endpoint_def
      example_np_array_def bind_exn_def wf_ndarray_def no_type_attribute_def squote_def)


section \<open>Properties of the callback\<close>

text \<open>
  C6, as amended. When the POST returns a response with a status from 400 to 599 (the
  responses for which \<^verbatim>\<open>ok\<close> is false), the callback returns \<^verbatim>\<open>None\<close>; when the
  POST itself raises, as it does on a network error or a timeout, the callback raises
  that exception to the plugin.
\<close>

theorem send_request_error_status:
  "(request_post (send_request_url cls endpoint ver) data (cls_timeout cls) = Inr r \<and>
      400 \<le> status_code r \<and> status_code r < 600
     \<longrightarrow> fst (preprocess_send_request cls request_post endpoint ver data) = Inr None) \<and>
   (request_post (send_request_url cls endpoint ver) data (cls_timeout cls) = Inl e
     \<longrightarrow> fst (preprocess_send_request cls request_post endpoint ver data) = Inl e)"
  by (simp add: preprocess_send_request_def ok_def Let_def)

theorem send_request_error_status_witness:
  "answering_post 404 (send_request_url class_body ''/ep/'' None) None
      (cls_timeout class_body) = Inr \<lparr>status_code = 404, json = Inr [[1]]\<rparr> \<and>
   fst (preprocess_send_request class_body (answering_post 404) ''/ep/'' None None) = Inr None \<and>
   refusing_post (send_request_url class_body ''/ep/'' None) None (cls_timeout class_body) =
      Inl (Exn ConnectionError ''Connection refused'') \<and>
   fst (preprocess_send_request class_body refusing_post ''/ep/'' None None) =
      Inl (Exn ConnectionError ''Connection refused'')"
  using send_request_error_status
    [of "answering_post 404" class_body "''/ep/''" None None
        "\<lparr>status_code = 404, json = Inr [[1]]\<rparr>"]
    send_request_error_status
    [of refusing_post class_body "''/ep/''" None None _
        "Exn ConnectionError ''Connection refused''"]
  by (simp add: answering_post_def refusing_post_def)

text \<open>
  The claim C6 as it was stated does not hold: a refused connection is raised, not
  turned into \<^verbatim>\<open>None\<close>, and a response with status 304, which is not a 2xx status,
  is decoded and returned.
\<close>

theorem send_request_failures_counterexample:
  "fst (preprocess_send_request class_body refusing_post ''/ep/'' (Some ''2'') None) =
     Inl (Exn ConnectionError ''Connection refused'') \<and>
   fst (preprocess_send_request class_body (answering_post 304) ''/ep/'' (Some ''2'') None) =
     Inr (Some [[1]])"
  by (simp add: preprocess_send_request_def refusing_post_def answering_post_def ok_def
      Let_def)

section \<open>Properties of plugin loading\<close>

text \<open>
  C4, as amended. After the first \<^verbatim>\<open>get_local_copy\<close> and the hash of the file it
  returned: when the hash equals the recorded one, nothing is printed and
  \<^verbatim>\<open>get_local_copy\<close> is called exactly once more, with archive extraction and without
  forcing a download, and the path that call returns is the file executed as the
  module; when the hashes differ, the change is printed, exactly one forced call with
  archive extraction follows, and the path it returns is the file executed.
\<close>

theorem hash_decides_refetch:
  assumes "artifacts t name = Some art"
    and "get_local_copy art 0 True False = Inr path"
    and "sha256sum w path = Inr file_hash"
  shows "(file_hash = art_hash art \<longrightarrow>
            instantiate_custom_preprocess_cls w ep t name self =
              (case get_local_copy art 1 True False of
                 Inl e \<Rightarrow> (Inl e, [Fetch True False, Fetch True False])
               | Inr path2 \<Rightarrow>
                   (bind_exn (exec_module w path2) (instantiate_plugin w ep self),
                    [Fetch True False, Fetch True False, ExecModule path2]))) \<and>
         (file_hash \<noteq> art_hash art \<longrightarrow>
            instantiate_custom_preprocess_cls w ep t name self =
              (case get_local_copy art 1 True True of
                 Inl e \<Rightarrow>
                   (Inl e,
                    [Fetch True False,
                     Printed (''INFO: re-downloading artifact '' @ squote @ name @ squote
                              @ '' hash changed''),
                     Fetch True True])
               | Inr path2 \<Rightarrow>
                   (bind_exn (exec_module w path2) (instantiate_plugin w ep self),
                    [Fetch True False,
                     Printed (''INFO: re-downloading artifact '' @ squote @ name @ squote
                              @ '' hash changed''),
                     Fetch True True, ExecModule path2])))"
  using assms
  by (simp add: instantiate_custom_preprocess_cls_def fetch_artifact_def load_plugin_def
      split: sum.splits)

theorem hash_decides_refetch_witness:
  "artifacts (example_task ''abc'') ''pre'' = Some (example_artifact ''abc'') \<and>
   get_local_copy (example_artifact ''abc'') 0 True False = Inr ''/cache/preprocess.py'' \<and>
   sha256sum example_loader ''/cache/preprocess.py'' = Inr (Some ''abc'') \<and>
   snd (instantiate_custom_preprocess_cls example_loader
          (example_endpoint (NP numpy_uint8) (Some ''pre'')) (example_task ''abc'') ''pre''
          (example_dispatcher (NP numpy_uint8))) =
     [Fetch True False, Fetch True False, ExecModule ''/cache/preprocess.py''] \<and>
   snd (instantiate_custom_preprocess_cls example_loader
          (example_endpoint (NP numpy_uint8) (Some ''pre'')) (example_task ''xyz'') ''pre''
          (example_dispatcher (NP numpy_uint8))) =
     [Fetch True False, Printed ''INFO: re-downloading artifact 'pre' hash changed'',
      Fetch True True, ExecModule ''/cache/preprocess.py'']"
proof -
  have a: "artifacts (example_task h) ''pre'' = Some (example_artifact h)" for h
    by (simp add: example_task_def task_of_def)
  have b: "get_local_copy (example_artifact h) n x f = Inr ''/cache/preprocess.py''" for h n x f
    by (simp add: example_artifact_def artifact_of_def)
  have c: "sha256sum example_loader ''/cache/preprocess.py'' = Inr (Some ''abc'')"
    by (simp add: example_loader_def loader_of_def)
  have h: "art_hash (example_artifact h) = Some h" for h
    by (simp add: example_artifact_def artifact_of_def)
  from hash_decides_refetch [OF a b c, of "''abc''"] hash_decides_refetch [OF a b c, of "''xyz''"]
  show ?thesis
    using a b c by (simp add: h b squote_def)
qed

text \<open>
  The claim C4 as it was stated does not hold: with equal hashes there is a further
  call of \<^verbatim>\<open>get_local_copy\<close> before the module is executed.
\<close>

theorem hash_match_counterexample:
  "get_local_copy (example_artifact ''abc'') 0 True False = Inr ''/cache/preprocess.py'' \<and>
   sha256sum example_loader ''/cache/preprocess.py'' = Inr (art_hash (example_artifact ''abc'')) \<and>
   snd (instantiate_custom_preprocess_cls example_loader
          (example_endpoint (NP numpy_uint8) (Some ''pre'')) (example_task ''abc'') ''pre''
          (example_dispatcher (NP numpy_uint8))) =
     [Fetch True False, Fetch True False, ExecModule ''/cache/preprocess.py'']"
  by (simp add: instantiate_custom_preprocess_cls_def fetch_artifact_def example_task_def
      task_of_def example_artifact_def artifact_of_def example_loader_def loader_of_def)

lemma sublist_configuration_error:
  "sublist name (str_exn (configuration_error name ex)) \<and>
   sublist (str_exn ex) (str_exn (configuration_error name ex)) \<and>
   exn_cls (configuration_error name ex) = ValueError"
proof -
  have s1: "sublist name (''Error: Failed loading preprocess code for '' @ squote @ name
              @ squote @ '': '' @ str_exn ex)"
    unfolding sublist_def
    by (rule exI [of _ "''Error: Failed loading preprocess code for '' @ squote"],
        rule exI [of _ "squote @ '': '' @ str_exn ex"]) simp
  have s2: "sublist (str_exn ex) (''Error: Failed loading preprocess code for '' @ squote
              @ name @ squote @ '': '' @ str_exn ex)"
    unfolding sublist_def
    by (rule exI [of _ "''Error: Failed loading preprocess code for '' @ squote @ name
          @ squote @ '': ''"], rule exI [of _ "[]"]) simp
  show ?thesis using s1 s2 by (simp add: configuration_error_def)
qed

text \<open>
  C7, as amended. With a preprocessing artifact configured and present on the task, let
  \<open>e\<close> be the exception raised by the first step of loading that raises: the first
  fetch, the hash, the second fetch, the execution of the module, the missing
  \<^verbatim>\<open>Preprocess\<close>, the injection and instantiation, the fetch of the model, or the
  \<open>load\<close> callback. The constructor then returns no dispatcher. When \<open>e\<close> derives
  from \<^verbatim>\<open>Exception\<close> it raises one \<^verbatim>\<open>ValueError\<close> whose message contains the
  artifact's name and the text of \<open>e\<close>; otherwise it raises \<open>e\<close> itself.
\<close>

theorem load_failure_is_configuration_error:
  assumes "preprocess_artifact ep = Some name" and "name \<noteq> []"
    and "artifacts t name = Some art"
    and "get_local_copy art 0 True False = Inl e \<or>
         (\<exists>path. get_local_copy art 0 True False = Inr path \<and>
           (sha256sum w path = Inl e \<or>
            (\<exists>h. sha256sum w path = Inr h \<and>
              ((if h \<noteq> art_hash art then get_local_copy art 1 True True
                else get_local_copy art 1 True False) = Inl e \<or>
               (\<exists>path2.
                  (if h \<noteq> art_hash art then get_local_copy art 1 True True
                   else get_local_copy art 1 True False) = Inr path2 \<and>
                  (exec_module w path2 = Inl e \<or>
                   (exec_module w path2 = Inr None \<and>
                    e = Exn AttributeError ''module has no attribute Preprocess'') \<or>
                   exec_module w path2 = Inr (Some (Inl e)) \<or>
                   (\<exists>p load. exec_module w path2 = Inr (Some (Inr p)) \<and>
                      plug_load p = Some load \<and>
                      (get_local_model_file w (model_id ep) = Inl e \<or>
                       (\<exists>model_path.
                          get_local_model_file w (model_id ep) = Inr model_path \<and>
                          load model_path = Inl e)))))))))"
  shows "fst (base_init cls env w ep (Some t)) =
           Inl (if is_Exception e then configuration_error name e else e) \<and>
         exn_cls (configuration_error name e) = ValueError \<and>
         sublist name (str_exn (configuration_error name e)) \<and>
         sublist (str_exn e) (str_exn (configuration_error name e))"
proof -
  have i: "fst (instantiate_custom_preprocess_cls w ep t name self) = Inl e" for self
    using assms(3,4)
    by (auto simp: instantiate_custom_preprocess_cls_def fetch_artifact_def load_plugin_def
        instantiate_plugin_def bind_exn_def Let_def split: if_splits)
  have d: "name \<in> dom (artifacts t)" using assms(3) by auto
  have h: "fst (case instantiate_custom_preprocess_cls w ep t name self of
             (Inl ex, evs) \<Rightarrow>
               if is_Exception ex then (Inl (configuration_error name ex), evs)
               else (Inl ex, evs)
           | (Inr self2, evs) \<Rightarrow> (Inr self2, evs)) =
          Inl (if is_Exception e then configuration_error name e else e)" for self
    using i [of self]
    by (cases "instantiate_custom_preprocess_cls w ep t name self") auto
  have "fst (base_init cls env w ep (Some t)) =
           Inl (if is_Exception e then configuration_error name e else e)"
    using assms(1,2) d by (simp add: base_init_def Let_def h)
  then show ?thesis using sublist_configuration_error [of name e] by simp
qed

theorem load_failure_is_configuration_error_witness:
  "fst (base_init class_body None example_loader
          (example_endpoint (NP numpy_uint8) (Some ''pre''))
          (Some (task_of (artifact_of ''abc''
             (\<lambda>n. if n = 0 then Inl (Exn IOError ''download failed'')
                  else Inr ''/cache/preprocess.py''))))) =
     Inl (Exn ValueError ''Error: Failed loading preprocess code for 'pre': download failed'') \<and>
   fst (base_init class_body None
          (loader_of (Inl (Exn IOError ''cannot read file''))
             (Inr (Some (Inr failing_load_plugin))) (Inr ''/cache/model.bin''))
          (example_endpoint (NP numpy_uint8) (Some ''pre'')) (Some (example_task ''abc''))) =
     Inl (Exn ValueError ''Error: Failed loading preprocess code for 'pre': cannot read file'') \<and>
   fst (base_init class_body None example_loader
          (example_endpoint (NP numpy_uint8) (Some ''pre''))
          (Some (task_of (artifact_of ''xyz''
             (\<lambda>n. if n = 0 then Inr ''/cache/preprocess.py''
                  else Inl (Exn ConnectionError ''server unreachable'')))))) =
     Inl (Exn ValueError
            ''Error: Failed loading preprocess code for 'pre': server unreachable'') \<and>
   fst (base_init class_body None
          (loader_of (Inr (Some ''abc'')) (Inl (Exn RuntimeError ''invalid syntax''))
             (Inr ''/cache/model.bin''))
          (example_endpoint (NP numpy_uint8) (Some ''pre'')) (Some (example_task ''abc''))) =
     Inl (Exn ValueError ''Error: Failed loading preprocess code for 'pre': invalid syntax'') \<and>
   fst (base_init class_body None
          (loader_of (Inr (Some ''abc'')) (Inr None) (Inr ''/cache/model.bin''))
          (example_endpoint (NP numpy_uint8) (Some ''pre'')) (Some (example_task ''abc''))) =
     Inl (Exn ValueError
            ''Error: Failed loading preprocess code for 'pre': module has no attribute Preprocess'') \<and>
   fst (base_init class_body None
          (loader_of (Inr (Some ''abc'')) (Inr (Some (Inl (Exn TypeError ''bad arguments''))))
             (Inr ''/cache/model.bin''))
          (example_endpoint (NP numpy_uint8) (Some ''pre'')) (Some (example_task ''abc''))) =
     Inl (Exn ValueError ''Error: Failed loading preprocess code for 'pre': bad arguments'') \<and>
   fst (base_init class_body None
          (loader_of (Inr (Some ''abc'')) (Inr (Some (Inr failing_load_plugin)))
             (Inl (Exn IOError ''no such model'')))
          (example_endpoint (NP numpy_uint8) (Some ''pre'')) (Some (example_task ''abc''))) =
     Inl (Exn ValueError ''Error: Failed loading preprocess code for 'pre': no such model'') \<and>
   fst (base_init class_body None example_loader
          (example_endpoint (NP numpy_uint8) (Some ''pre'')) (Some (example_task ''abc''))) =
     Inl (Exn ValueError ''Error: Failed loading preprocess code for 'pre': cannot read model'')"
proof -
  let ?ep = "example_endpoint (NP numpy_uint8) (Some ''pre'')"
  note defs = example_endpoint_def example_task_def task_of_def example_artifact_def
    artifact_of_def loader_of_def example_loader_def failing_load_plugin_def
    is_Exception_def configuration_error_def squote_def
  let ?a1 = "artifact_of ''abc'' (\<lambda>n. if n = 0 then Inl (Exn IOError ''download failed'')
                  else Inr ''/cache/preprocess.py'')"
  let ?a3 = "artifact_of ''xyz'' (\<lambda>n. if n = 0 then Inr ''/cache/preprocess.py''
                  else Inl (Exn ConnectionError ''server unreachable''))"
  have w1: "fst (base_init class_body None example_loader ?ep (Some (task_of ?a1))) =
     Inl (Exn ValueError ''Error: Failed loading preprocess code for 'pre': download failed'')"
    using load_failure_is_configuration_error [where ep = ?ep and name = "''pre''"
        and t = "task_of ?a1" and art = ?a1 and e = "Exn IOError ''download failed''"
        and w = example_loader and cls = class_body and env = None]
    by (simp add: defs)
  have w2: "fst (base_init class_body None
          (loader_of (Inl (Exn IOError ''cannot read file''))
             (Inr (Some (Inr failing_load_plugin))) (Inr ''/cache/model.bin''))
          ?ep (Some (example_task ''abc''))) =
     Inl (Exn ValueError ''Error: Failed loading preprocess code for 'pre': cannot read file'')"
    using load_failure_is_configuration_error [where ep = ?ep and name = "''pre''"
        and t = "example_task ''abc''" and art = "example_artifact ''abc''"
        and e = "Exn IOError ''cannot read file''"
        and w = "loader_of (Inl (Exn IOError ''cannot read file''))
             (Inr (Some (Inr failing_load_plugin))) (Inr ''/cache/model.bin'')"
        and cls = class_body and env = None]
    by (simp add: defs)
  have w3: "fst (base_init class_body None example_loader ?ep (Some (task_of ?a3))) =
     Inl (Exn ValueError
            ''Error: Failed loading preprocess code for 'pre': server unreachable'')"
    using load_failure_is_configuration_error [where ep = ?ep and name = "''pre''"
        and t = "task_of ?a3" and art = ?a3 and e = "Exn ConnectionError ''server unreachable''"
        and w = example_loader and cls = class_body and env = None]
    by (simp add: defs)
  have w4: "fst (base_init class_body None
          (loader_of (Inr (Some ''abc'')) (Inl (Exn RuntimeError ''invalid syntax''))
             (Inr ''/cache/model.bin''))
          ?ep (Some (example_task ''abc''))) =
     Inl (Exn ValueError ''Error: Failed loading preprocess code for 'pre': invalid syntax'')"
    using load_failure_is_configuration_error [where ep = ?ep and name = "''pre''"
        and t = "example_task ''abc''" and art = "example_artifact ''abc''"
        and e = "Exn RuntimeError ''invalid syntax''"
        and w = "loader_of (Inr (Some ''abc'')) (Inl (Exn RuntimeError ''invalid syntax''))
             (Inr ''/cache/model.bin'')"
        and cls = class_body and env = None]
    by (simp add: defs)
  have w5: "fst (base_init class_body None
          (loader_of (Inr (Some ''abc'')) (Inr None) (Inr ''/cache/model.bin''))
          ?ep (Some (example_task ''abc''))) =
     Inl (Exn ValueError
            ''Error: Failed loading preprocess code for 'pre': module has no attribute Preprocess'')"
    using load_failure_is_configuration_error [where ep = ?ep and name = "''pre''"
        and t = "example_task ''abc''" and art = "example_artifact ''abc''"
        and e = "Exn AttributeError ''module has no attribute Preprocess''"
        and w = "loader_of (Inr (Some ''abc'')) (Inr None) (Inr ''/cache/model.bin'')"
        and cls = class_body and env = None]
    by (simp add: defs)
  have w6: "fst (base_init class_body None
          (loader_of (Inr (Some ''abc'')) (Inr (Some (Inl (Exn TypeError ''bad arguments''))))
             (Inr ''/cache/model.bin''))
          ?ep (Some (example_task ''abc''))) =
     Inl (Exn ValueError ''Error: Failed loading preprocess code for 'pre': bad arguments'')"
    using load_failure_is_configuration_error [where ep = ?ep and name = "''pre''"
        and t = "example_task ''abc''" and art = "example_artifact ''abc''"
        and e = "Exn TypeError ''bad arguments''"
        and w = "loader_of (Inr (Some ''abc''))
             (Inr (Some (Inl (Exn TypeError ''bad arguments'')))) (Inr ''/cache/model.bin'')"
        and cls = class_body and env = None]
    by (simp add: defs)
  have w7: "fst (base_init class_body None
          (loader_of (Inr (Some ''abc'')) (Inr (Some (Inr failing_load_plugin)))
             (Inl (Exn IOError ''no such model'')))
          ?ep (Some (example_task ''abc''))) =
     Inl (Exn ValueError ''Error: Failed loading preprocess code for 'pre': no such model'')"
    using load_failure_is_configuration_error [where ep = ?ep and name = "''pre''"
        and t = "example_task ''abc''" and art = "example_artifact ''abc''"
        and e = "Exn IOError ''no such model''"
        and w = "loader_of (Inr (Some ''abc'')) (Inr (Some (Inr failing_load_plugin)))
             (Inl (Exn IOError ''no such model''))"
        and cls = class_body and env = None]
    by (simp add: defs)
  have w8: "fst (base_init class_body None example_loader ?ep (Some (example_task ''abc''))) =
     Inl (Exn ValueError ''Error: Failed loading preprocess code for 'pre': cannot read model'')"
    using load_failure_is_configuration_error [where ep = ?ep and name = "''pre''"
        and t = "example_task ''abc''" and art = "example_artifact ''abc''"
        and e = "Exn IOError ''cannot read model''"
        and w = example_loader and cls = class_body and env = None]
    by (simp add: defs)
  show ?thesis
    using w1 w2 w3 w4 w5 w6 w7 w8 by blast
qed

text \<open>
  The claim C7 as it was stated does not hold of every exception: a plugin file that
  calls \<^verbatim>\<open>sys.exit\<close> when it is executed raises \<^verbatim>\<open>SystemExit\<close>, which the handler
  does not catch, and the constructor raises it unchanged.
\<close>

theorem system_exit_counterexample:
  "exec_module (loader_of (Inr (Some ''abc'')) (Inl (Exn SystemExit ''1''))
       (Inr ''/cache/model.bin'')) ''/cache/preprocess.py'' = Inl (Exn SystemExit ''1'') \<and>
   fst (base_init class_body None
          (loader_of (Inr (Some ''abc'')) (Inl (Exn SystemExit ''1''))
             (Inr ''/cache/model.bin''))
          (example_endpoint (NP numpy_uint8) (Some ''pre'')) (Some (example_task ''abc''))) =
     Inl (Exn SystemExit ''1'')"
  by (simp add: base_init_def instantiate_custom_preprocess_cls_def fetch_artifact_def
      load_plugin_def instantiate_plugin_def bind_exn_def Let_def example_endpoint_def
      example_task_def task_of_def example_artifact_def artifact_of_def loader_of_def
      is_Exception_def)

section \<open>Properties of the timeout\<close>

lemma send_request_uses_class_timeout:
  "map call_timeout (snd (preprocess_send_request cls request_post endpoint ver data)) =
     [cls_timeout cls]"
  by (simp add: preprocess_send_request_def Let_def split: sum.splits)

lemma base_init_instance_timeout:
  assumes "base_init cls env w ep tsk = (Inr d, evs)"
  shows "self_timeout cls d =
           (case cls_timeout cls of None \<Rightarrow> Some (derive_timeout env) | Some x \<Rightarrow> Some x)"
  using assms
  by (auto simp: base_init_def Let_def self_timeout_def
      instantiate_custom_preprocess_cls_def load_plugin_def instantiate_plugin_def
      bind_exn_def split: option.splits if_splits sum.splits prod.splits)

lemma triton_call_uses_instance_timeout:
  assumes "capability plug_process self = None"
    and "insecure_channel ext (triton_address cls) = Inr stub"
    and "build_request m ext (model_endpoint self) data = Inr request"
  shows "map rpc_timeout (snd (triton_process m ext cls self data fn)) =
           [self_timeout cls self]"
  using assms triton_address_nonempty [of cls]
  by (simp add: triton_process_def Let_def split: sum.splits)

text \<open>
  C8, evaluated. A dispatcher is constructed from the class as the module defines it,
  with \<^verbatim>\<open>GUNICORN_SERVING_TIMEOUT\<close> unset. The derived value, 480, becomes an attribute
  of the instance and is the timeout of the call to the tensor server. The class
  attribute stays \<^verbatim>\<open>None\<close>, and it is the class attribute that the callback passes to
  the POST: the callback posts with no timeout.
\<close>

theorem callback_posts_without_timeout:
  "base_init class_body None example_loader (example_endpoint (NP numpy_uint8) None) None =
     (Inr (example_dispatcher (NP numpy_uint8)), []) \<and>
   self_timeout class_body (example_dispatcher (NP numpy_uint8)) = Some 480 \<and>
   map rpc_timeout (snd (triton_process LP64 (example_ext single_response) class_body
      (example_dispatcher (NP numpy_uint8)) [[1], [2]] ())) = [Some 480] \<and>
   map call_timeout (snd (preprocess_send_request class_body (answering_post 200)
      ''/ep/'' None None)) = [None]"
proof -
  have i: "base_init class_body None example_loader (example_endpoint (NP numpy_uint8) None)
      None = (Inr (example_dispatcher (NP numpy_uint8)), [])"
    by (simp add: base_init_def Let_def self_timeout_def class_body_def
        example_endpoint_def example_dispatcher_def derive_timeout_def)
  have t: "self_timeout class_body (example_dispatcher (NP numpy_uint8)) = Some 480"
    by (simp add: self_timeout_def example_dispatcher_def)
  have b: "build_request LP64 (example_ext single_response)
        (model_endpoint (example_dispatcher (NP numpy_uint8))) [[1], [2]] = Inr
          \<lparr>model_name = strip_slash ''test_model/1'', model_version = ''1'',
           req_inputs = [\<lparr>in_name = ''input'', in_datatype = ''UINT8'', in_shape = [1, 2],
              in_contents = (\<lambda>f. [])(uint_contents := [[1], [2]])\<rparr>],
           req_outputs = [''output'']\<rparr>"
    by (simp add: build_request_def example_ext_def example_dispatcher_def
        example_endpoint_def example_np_array_def bind_exn_def content_lookup_def
        np_int_def np_uint_def np_bool_def flatten_def check_value_def le_value_def)
  have p: "map rpc_timeout (snd (triton_process LP64 (example_ext single_response) class_body
      (example_dispatcher (NP numpy_uint8)) [[1], [2]] ())) = [Some 480]"
  proof -
    have c: "capability plug_process (example_dispatcher (NP numpy_uint8)) = None"
      by (simp add: capability_def example_dispatcher_def)
    have ch: "insecure_channel (example_ext single_response) (triton_address class_body)
        = Inr ()"
      by (simp add: example_ext_def)
    show ?thesis
      using triton_call_uses_instance_timeout [OF c ch b] by (simp add: t)
  qed
  have s: "map call_timeout (snd (preprocess_send_request class_body (answering_post 200)
      ''/ep/'' None None)) = [None]"
    by (simp add: send_request_uses_class_timeout class_body_def)
  show ?thesis using i t p s by simp
qed

end
